theory Spec2Isabelle
  imports Main
begin

section \<open>JavaScript values, errors and objects\<close>

text \<open>
  The values a parsed request body can hold. A multipart body gives strings (and, for
  bracketed field names, arrays and objects); a JSON body gives every JSON value. A
  property that is absent reads as \<open>undefined\<close>. Numbers are modelled as integers: the
  handler only tests them for truthiness and passes them on.
\<close>

datatype jsval =
    JUndefined
  | JNull
  | JBool bool
  | JNum int
  | JStr string
  | JArr "jsval list"
  | JObj "(string \<times> jsval) list"

text \<open>An object is an association list with distinct keys, in insertion order.\<close>

type_synonym jsobject = "(string \<times> jsval) list"

text \<open>The operand of \<open>!\<close> and \<open>||\<close>: what JavaScript treats as true.\<close>

fun truthy :: "jsval \<Rightarrow> bool" where
  "truthy JUndefined = False"
| "truthy JNull = False"
| "truthy (JBool b) = b"
| "truthy (JNum n) = (n \<noteq> 0)"
| "truthy (JStr s) = (s \<noteq> [])"
| "truthy (JArr xs) = True"
| "truthy (JObj kvs) = True"

text \<open>Property read \<open>obj[k]\<close>, as the destructuring of \<open>req.body\<close> performs it.\<close>

definition field :: "jsobject \<Rightarrow> string \<Rightarrow> jsval" where
  "field obj k = (case map_of obj k of None \<Rightarrow> JUndefined | Some v \<Rightarrow> v)"

definition Object_keys :: "jsobject \<Rightarrow> string list" where
  "Object_keys obj = map fst obj"

text \<open>
  An \<open>Error\<close> object with the properties the program and the framework read:
  \<open>message\<close>, the driver's \<open>code\<close> and \<open>sqlMessage\<close>, and \<open>status\<close>, which the
  framework's final handler consults.
\<close>

record js_error =
  message :: string
  code :: "string option"
  sqlMessage :: "string option"
  status :: "nat option"

definition new_Error :: "string \<Rightarrow> js_error" where
  "new_Error msg = \<lparr>message = msg, code = None, sqlMessage = None, status = None\<rparr>"

definition new_TypeError :: "string \<Rightarrow> js_error" where
  "new_TypeError msg = new_Error msg"

text \<open>\<open>Array.prototype.join\<close> on an array of strings.\<close>

fun join :: "string \<Rightarrow> string list \<Rightarrow> string" where
  "join sep [] = []"
| "join sep [x] = x"
| "join sep (x # y # ys) = x @ sep @ join sep (y # ys)"

text \<open>\<open>String.prototype.includes\<close>.\<close>

fun str_includes :: "string \<Rightarrow> string \<Rightarrow> bool" where
  "str_includes [] needle = (needle = [])"
| "str_includes (c # cs) needle =
     (take (length needle) (c # cs) = needle \<or> str_includes cs needle)"

text \<open>Decimal rendering of a non-negative integer, as a template literal prints it.\<close>

definition digit_char :: "nat \<Rightarrow> char" where
  "digit_char d = ''0123456789'' ! d"

function string_of_nat :: "nat \<Rightarrow> string" where
  "string_of_nat n =
     (if n < 10 then [digit_char n] else string_of_nat (n div 10) @ [digit_char (n mod 10)])"
  by pat_completeness auto
termination
  by (relation "measure id") auto

section \<open>Process environment and startup\<close>

text \<open>\<open>process.env\<close>: every value is a string; an unset variable is \<open>undefined\<close>.\<close>

type_synonym environment = "string \<rightharpoonup> string"

text \<open>\<open>!process.env[v]\<close>: unset or the empty string.\<close>

definition env_falsy :: "environment \<Rightarrow> string \<Rightarrow> bool" where
  "env_falsy penv v = (case penv v of None \<Rightarrow> True | Some s \<Rightarrow> s = [])"

text \<open>\<open>process.env[v] || d\<close>.\<close>

definition env_or :: "environment \<Rightarrow> string \<Rightarrow> string \<Rightarrow> string" where
  "env_or penv v d = (if env_falsy penv v then d else the (penv v))"

definition requiredEnvVars :: "string list" where
  "requiredEnvVars =
     [''AWS_ACCESS_KEY_ID'',
      ''AWS_SECRET_ACCESS_KEY'',
      ''S3_BUCKET_NAME'',
      ''DB_HOST'',
      ''DB_USER'',
      ''DB_PASS'',
      ''DB_NAME'']"

definition missingVars :: "environment \<Rightarrow> string list" where
  "missingVars penv = filter (\<lambda>varName. env_falsy penv varName) requiredEnvVars"

text \<open>
  The configuration the process runs with once the check has passed; the four items
  read with \<open>||\<close> fall back to a default, the others are read as they are.
\<close>

record config =
  aws_region :: string
  db_host :: string
  db_port :: string
  db_user :: string
  db_password :: string
  db_database :: string
  listen_port :: string
  node_env :: "string option"

definition load_config :: "environment \<Rightarrow> config" where
  "load_config penv =
     \<lparr>aws_region = env_or penv ''AWS_REGION'' ''ap-south-1'',
      db_host = env_or penv ''DB_HOST'' ''localhost'',
      db_port = env_or penv ''DB_PORT'' ''3306'',
      db_user = env_or penv ''DB_USER'' ''root'',
      db_password = env_or penv ''DB_PASS'' '''',
      db_database = env_or penv ''DB_NAME'' ''cca_responses'',
      listen_port = env_or penv ''PORT'' ''3001'',
      node_env = penv ''NODE_ENV''\<rparr>"

text \<open>
  The outcome of the module's top level: \<open>process.exit(1)\<close> after the diagnostic lines
  written to the error console, or the server listening with its configuration.
\<close>

datatype startup = Exited nat "string list" | Listening config

definition missing_header :: string where
  "missing_header =
     [char_of (0xE2 :: nat), char_of (0x9D :: nat), char_of (0x8C :: nat)]
       @ '' Missing required environment variables:''"

definition startup :: "environment \<Rightarrow> startup" where
  "startup penv =
     (if length (missingVars penv) > 0
      then Exited 1 (missing_header # map (\<lambda>varName. ''   - '' @ varName) (missingVars penv))
      else Listening (load_config penv))"

text \<open>The configuration surface as the specification lists it.\<close>

definition configuration_surface :: "string list" where
  "configuration_surface =
     [''S3_BUCKET_NAME'', ''AWS_REGION'', ''AWS_ACCESS_KEY_ID'', ''AWS_SECRET_ACCESS_KEY'',
      ''DB_HOST'', ''DB_PORT'', ''DB_USER'', ''DB_PASS'', ''DB_NAME'', ''PORT'', ''NODE_ENV'']"

definition is_exit :: "startup \<Rightarrow> bool" where
  "is_exit s = (case s of Exited c ls \<Rightarrow> True | Listening c \<Rightarrow> False)"

definition minimal_env :: environment where
  "minimal_env =
     map_of
       [(''AWS_ACCESS_KEY_ID'', ''AKIA''),
        (''AWS_SECRET_ACCESS_KEY'', ''secret''),
        (''S3_BUCKET_NAME'', ''bucket''),
        (''DB_HOST'', ''db.local''),
        (''DB_USER'', ''cca''),
        (''DB_PASS'', ''pw''),
        (''DB_NAME'', ''cca_responses'')]"

section \<open>The submissions table and the insert statement\<close>

text \<open>The table of \<open>query.sql\<close>: \<open>CREATE TABLE\<close>, then the \<open>ALTER TABLE\<close> renaming a column.\<close>

type_synonym table = "(string \<times> string) list"

definition create_table_submissions :: table where
  "create_table_submissions =
     [(''id'', ''INT AUTO_INCREMENT PRIMARY KEY''),
      (''full_name'', ''VARCHAR(255)''),
      (''email_address'', ''VARCHAR(255)''),
      (''contact_number'', ''VARCHAR(255)''),
      (''submission_capacity'', ''ENUM('Agency', 'Freelancer', 'Corporation')''),
      (''team_members'', ''TEXT''),
      (''prize_cheque_name'', ''VARCHAR(255)''),
      (''consent_declarations'', ''TEXT''),
      (''challenge'', ''TEXT''),
      (''insight'', ''TEXT''),
      (''strategic_idea'', ''TEXT''),
      (''strategy_execution'', ''TEXT''),
      (''expected_results'', ''TEXT''),
      (''entry_topic'', ''TEXT''),
      (''concept_strategy'', ''TEXT''),
      (''objective'', ''TEXT''),
      (''rationale'', ''TEXT''),
      (''measurement'', ''TEXT''),
      (''insight_description'', ''TEXT''),
      (''strategic_solution'', ''TEXT''),
      (''creative_plan'', ''TEXT''),
      (''communication_strategy'', ''TEXT''),
      (''result_impact'', ''TEXT''),
      (''result_scope'', ''VARCHAR(255)''),
      (''visual_link'', ''TEXT''),
      (''why_outstanding'', ''TEXT'')]"

definition change_column :: "string \<Rightarrow> string \<Rightarrow> string \<Rightarrow> table \<Rightarrow> table" where
  "change_column old new ty t = map (\<lambda>(c, cty). if c = old then (new, ty) else (c, cty)) t"

definition submissions :: table where
  "submissions = change_column ''visual_link'' ''visual_links'' ''TEXT'' create_table_submissions"

text \<open>The column list of the handler's \<open>INSERT\<close>, in the order the statement names them.\<close>

definition insert_columns :: "string list" where
  "insert_columns =
     [''full_name'',
      ''email_address'',
      ''contact_number'',
      ''submission_capacity'',
      ''team_members'',
      ''prize_cheque_name'',
      ''consent_declarations'',
      ''challenge'',
      ''insight'',
      ''strategic_idea'',
      ''strategy_execution'',
      ''expected_results'',
      ''entry_topic'',
      ''concept_strategy'',
      ''objective'',
      ''rationale'',
      ''measurement'',
      ''insight_description'',
      ''strategic_solution'',
      ''creative_plan'',
      ''communication_strategy'',
      ''result_impact'',
      ''result_scope'',
      ''visual_links'',
      ''why_outstanding'']"

text \<open>The two statements the handler executes; the layout of the text is not kept.\<close>

datatype sql = InsertSubmission | ShowColumnsVisualLinks

definition sql_text :: "sql \<Rightarrow> string" where
  "sql_text q =
     (case q of
        InsertSubmission \<Rightarrow>
          ''INSERT INTO submissions ('' @ join '', '' insert_columns @ '') VALUES (''
            @ join '', '' (replicate 25 ''?'') @ '')''
      | ShowColumnsVisualLinks \<Rightarrow> ''SHOW COLUMNS FROM submissions LIKE '' @ [CHR 0x27] @ ''visual_links'' @ [CHR 0x27])"

text \<open>The \<open>values\<close> array: the destructured fields and \<open>visual_links\<close>, in column order.\<close>

definition insert_values :: "jsobject \<Rightarrow> jsval \<Rightarrow> jsval list" where
  "insert_values b visual_links =
     [field b ''full_name'',
      field b ''email_address'',
      field b ''contact_number'',
      field b ''submission_capacity'',
      field b ''team_members'',
      field b ''prize_cheque_name'',
      field b ''consent_declarations'',
      field b ''challenge'',
      field b ''insight'',
      field b ''strategic_idea'',
      field b ''strategy_execution'',
      field b ''expected_results'',
      field b ''entry_topic'',
      field b ''concept_strategy'',
      field b ''objective'',
      field b ''rationale'',
      field b ''measurement'',
      field b ''insight_description'',
      field b ''strategic_solution'',
      field b ''creative_plan'',
      field b ''communication_strategy'',
      field b ''result_impact'',
      field b ''result_scope'',
      visual_links,
      field b ''why_outstanding'']"

section \<open>Requests, attachments and the outside world\<close>

text \<open>An attachment as the upload middleware hands it over (\<open>memoryStorage\<close>).\<close>

record multer_file =
  originalname :: string
  mimetype :: string
  buffer :: "nat list"

text \<open>
  What the handler reads of \<open>req\<close>: \<open>req.body\<close> and \<open>req.files\<close>, either of which
  may be \<open>undefined\<close>.
\<close>

record request =
  body :: "jsobject option"
  files :: "multer_file list option"

record put_object =
  Bucket :: string
  Key :: string
  Body :: "nat list"
  ContentType :: string

text \<open>
  The calls that leave the handler, in the order they are made: entering the uploader,
  sending a \<open>PutObjectCommand\<close>, and \<open>promiseDb.execute\<close> with its statement and
  bind parameters.
\<close>

datatype event =
    Call_uploadMultipleFilesToS3 nat
  | S3Send put_object
  | DbExecute sql "jsval list"

text \<open>
  Everything the handler does not decide itself. The \<open>i\<close>-th attachment of a request
  reads the clock and the random generator once and sends one command; the storage
  service answers that command at some tick, with an error or without. The random
  number is taken as \<open>Math.random().toString(36)\<close> prints it. The store answers an
  insert with the generated identifier or with an error.
\<close>

record world =
  process_env :: environment
  Date_now :: "nat \<Rightarrow> nat"
  Math_random_36 :: "nat \<Rightarrow> string"
  s3_outcome :: "nat \<Rightarrow> nat \<times> js_error option"
  store_insert :: "jsval list \<Rightarrow> js_error + nat"

datatype payload = Json jsobject | ErrorPage js_error

record response =
  statusCode :: nat
  payload :: payload

definition res_json :: "nat \<Rightarrow> jsobject \<Rightarrow> response" where
  "res_json st obj = \<lparr>statusCode = st, payload = Json obj\<rparr>"

section \<open>The upload middleware\<close>

definition allowedMimes :: "string list" where
  "allowedMimes =
     [''application/pdf'',
      ''application/msword'',
      ''application/vnd.openxmlformats-officedocument.wordprocessingml.document'',
      ''image/jpeg'',
      ''image/jpg'',
      ''image/png'',
      ''image/tiff'',
      ''image/tif'',
      ''video/mp4'',
      ''video/quicktime'',
      ''video/x-msvideo'',
      ''audio/mpeg'',
      ''audio/wav'',
      ''audio/wave'',
      ''audio/x-wav'']"

definition invalid_file_type_message :: string where
  "invalid_file_type_message =
     ''Invalid file type. Only PDF, Word documents, JPEG, PNG, TIFF, MP4, MOV, AVI, MP3, and WAV files are allowed.''"

text \<open>The \<open>fileFilter\<close> callback: \<open>cb(null, true)\<close> or \<open>cb(new Error(...))\<close>.\<close>

definition fileFilter :: "multer_file \<Rightarrow> js_error + bool" where
  "fileFilter f =
     (if mimetype f \<in> set allowedMimes then Inr True
      else Inl (new_Error invalid_file_type_message))"

text \<open>
  A request as it reaches the route: a multipart form with its text fields and the file
  parts sent under \<open>visual_files\<close>, in the order sent, or any other request, whose body
  is whatever the body parsers left (possibly nothing). File parts sent under another
  field name are not modelled.
\<close>

datatype raw_request = Multipart jsobject "multer_file list" | NotMultipart "jsobject option"

text \<open>
  \<open>upload.array("visual_files")\<close>: each file part goes through \<open>fileFilter\<close> as it
  arrives; the first error ends the middleware with that error, otherwise the accepted
  files are stored in \<open>req.files\<close> and the text fields in \<open>req.body\<close>. A request that
  is not multipart passes through untouched.
\<close>

fun accept_files :: "multer_file list \<Rightarrow> js_error + multer_file list" where
  "accept_files [] = Inr []"
| "accept_files (f # fs) =
     (case fileFilter f of
        Inl e \<Rightarrow> Inl e
      | Inr include \<Rightarrow>
          (case accept_files fs of
             Inl e \<Rightarrow> Inl e
           | Inr acc \<Rightarrow> Inr (if include then f # acc else acc)))"

definition upload_array :: "raw_request \<Rightarrow> js_error + request" where
  "upload_array raw =
     (case raw of
        NotMultipart b \<Rightarrow> Inr \<lparr>body = b, files = None\<rparr>
      | Multipart txt fs \<Rightarrow>
          (case accept_files fs of
             Inl e \<Rightarrow> Inl e
           | Inr acc \<Rightarrow> Inr \<lparr>body = Some txt, files = Some acc\<rparr>))"

section \<open>The uploader\<close>

text \<open>A promise that has settled: the tick at which it did, and its outcome.\<close>

type_synonym 'a promise = "nat \<times> (js_error + 'a)"

definition rejections :: "'a promise list \<Rightarrow> (nat \<times> js_error) list" where
  "rejections ps = concat (map (\<lambda>(t, r). case r of Inl e \<Rightarrow> [(t, e)] | Inr v \<Rightarrow> []) ps)"

definition fulfilled :: "'a promise list \<Rightarrow> 'a list" where
  "fulfilled ps = concat (map (\<lambda>(t, r). case r of Inl e \<Rightarrow> [] | Inr v \<Rightarrow> [v]) ps)"

fun earliest :: "nat \<times> js_error \<Rightarrow> (nat \<times> js_error) list \<Rightarrow> nat \<times> js_error" where
  "earliest r [] = r"
| "earliest r (x # xs) = earliest (if fst x < fst r then x else r) xs"

text \<open>
  \<open>Promise.all\<close>: the values in input order when every promise is fulfilled, otherwise
  the error of the promise that rejected first.
\<close>

definition Promise_all :: "'a promise list \<Rightarrow> js_error + 'a list" where
  "Promise_all ps =
     (case rejections ps of
        [] \<Rightarrow> Inr (fulfilled ps)
      | r # rs \<Rightarrow> Inl (snd (earliest r rs)))"

text \<open>\<open>S3_BUCKET_NAME\<close> as a template literal prints it.\<close>

definition S3_BUCKET_NAME :: "world \<Rightarrow> string" where
  "S3_BUCKET_NAME w =
     (case process_env w ''S3_BUCKET_NAME'' of None \<Rightarrow> ''undefined'' | Some s \<Rightarrow> s)"

definition s3_url :: "world \<Rightarrow> string \<Rightarrow> string" where
  "s3_url w fileName =
     ''https://'' @ S3_BUCKET_NAME w @ ''.s3.''
       @ env_or (process_env w) ''AWS_REGION'' ''us-east-1'' @ ''.amazonaws.com/'' @ fileName"

text \<open>
  \<open>uploadToS3\<close> for the \<open>i\<close>-th attachment: the command is sent at once; the promise
  settles with the URL, or with the error that \<open>send\<close> raised, thrown again.
\<close>

definition uploadToS3 :: "world \<Rightarrow> nat \<Rightarrow> multer_file \<Rightarrow> string \<Rightarrow> event \<times> string promise" where
  "uploadToS3 w i f fileName =
     (let params = \<lparr>Bucket = S3_BUCKET_NAME w, Key = fileName,
                     Body = buffer f, ContentType = mimetype f\<rparr>
      in (S3Send params,
          (fst (s3_outcome w i),
           case snd (s3_outcome w i) of
             None \<Rightarrow> Inr (s3_url w fileName)
           | Some error \<Rightarrow> Inl error)))"

text \<open>The storage key: \<open>substring(2, 15)\<close> of the random number printed in base 36.\<close>

definition fileName_of :: "world \<Rightarrow> nat \<Rightarrow> multer_file \<Rightarrow> string" where
  "fileName_of w i f =
     (let timestamp = Date_now w i;
          randomId = take 13 (drop 2 (Math_random_36 w i))
      in ''ccapatrika/'' @ string_of_nat timestamp @ ''-'' @ randomId @ ''-'' @ originalname f)"

definition upload_calls :: "world \<Rightarrow> multer_file list \<Rightarrow> (event \<times> string promise) list" where
  "upload_calls w fs = map (\<lambda>(i, f). uploadToS3 w i f (fileName_of w i f)) (enumerate 0 fs)"

definition uploadMultipleFilesToS3 ::
  "world \<Rightarrow> multer_file list option \<Rightarrow> event list \<times> (js_error + jsval)" where
  "uploadMultipleFilesToS3 w files_opt =
     (case files_opt of
        None \<Rightarrow> ([], Inr JNull)
      | Some fs \<Rightarrow>
          if length fs = 0 then ([], Inr JNull)
          else
            (let uploadPromises = upload_calls w fs
             in (map fst uploadPromises,
                 case Promise_all (map snd uploadPromises) of
                   Inr uploadedUrls \<Rightarrow> Inr (JStr (join '','' uploadedUrls))
                 | Inl error \<Rightarrow> Inl error)))"

section \<open>The database driver\<close>

definition bind_undefined_message :: string where
  "bind_undefined_message =
     ''Bind parameters must not contain undefined. To pass SQL NULL specify JS null''"

text \<open>
  \<open>promiseDb.execute(query, values)\<close> for the insert, on the pool of \<open>mysql2\<close>.
  \<open>execute\<close> runs a prepared statement; the driver refuses a bind parameter that is
  \<open>undefined\<close> with a \<open>TypeError\<close> before anything is sent to the store, and the
  promise rejects with it. Otherwise the store decides. (\<open>query\<close>, which the earlier
  revision of the handler calls, writes \<open>NULL\<close> for \<open>undefined\<close> instead.)
\<close>

definition execute_insert :: "world \<Rightarrow> jsval list \<Rightarrow> js_error + nat" where
  "execute_insert w vals =
     (if JUndefined \<in> set vals then Inl (new_TypeError bind_undefined_message)
      else store_insert w vals)"

section \<open>The handler of POST /api/submit-entry\<close>

definition no_form_data_message :: string where
  "no_form_data_message =
     ''No form data received. Please ensure you're sending the form data correctly.''"

definition missing_fields_message :: string where
  "missing_fields_message =
     ''Missing required fields: full_name and email_address are required.''"

text \<open>\<open>req.files && req.files.length > 0\<close>.\<close>

definition has_files :: "multer_file list option \<Rightarrow> bool" where
  "has_files files_opt = (case files_opt of None \<Rightarrow> False | Some fs \<Rightarrow> length fs > 0)"

text \<open>The check the insert's error branch makes before it looks the column up again.\<close>

definition visual_links_column_issue :: "js_error \<Rightarrow> bool" where
  "visual_links_column_issue err =
     (code err = Some ''ER_BAD_FIELD_ERROR'' \<and>
      (case sqlMessage err of
         None \<Rightarrow> False
       | Some m \<Rightarrow> m \<noteq> [] \<and> str_includes m ''visual_links''))"

definition insert_error_response :: "world \<Rightarrow> js_error \<Rightarrow> response" where
  "insert_error_response w err =
     res_json 500
       [(''message'', JStr ''Error saving the entry.''),
        (''error'',
           if process_env w ''NODE_ENV'' = Some ''development''
           then JStr (message err)
           else JStr ''Database error occurred'')]"

definition processing_error_response :: "js_error \<Rightarrow> response" where
  "processing_error_response error =
     res_json 500
       [(''message'', JStr ''Error processing submission.''),
        (''error'', JStr (message error))]"

text \<open>
  The block that sets \<open>visual_links\<close>: \<open>null\<close>, unless there are files, in which
  case the uploader is called and awaited.
\<close>

definition resolve_attachments ::
  "world \<Rightarrow> multer_file list option \<Rightarrow> event list \<times> (js_error + jsval)" where
  "resolve_attachments w files_opt =
     (if has_files files_opt
      then (case uploadMultipleFilesToS3 w files_opt of
              (evs, r) \<Rightarrow> (Call_uploadMultipleFilesToS3 (length (the files_opt)) # evs, r))
      else ([], Inr JNull))"

definition submit_entry :: "world \<Rightarrow> request \<Rightarrow> event list \<times> response" where
  "submit_entry w req =
     (case body req of
        None \<Rightarrow> ([], res_json 400 [(''message'', JStr no_form_data_message)])
      | Some b \<Rightarrow>
          if length (Object_keys b) = 0
          then ([], res_json 400 [(''message'', JStr no_form_data_message)])
          else if \<not> truthy (field b ''full_name'') \<or> \<not> truthy (field b ''email_address'')
          then ([], res_json 400 [(''message'', JStr missing_fields_message)])
          else
            (case resolve_attachments w (files req) of
               (evs, Inl error) \<Rightarrow> (evs, processing_error_response error)
             | (evs, Inr visual_links) \<Rightarrow>
                 (let vals = insert_values b visual_links
                  in case execute_insert w vals of
                       Inr insertId \<Rightarrow>
                         (evs @ [DbExecute InsertSubmission vals],
                          res_json 200
                            [(''message'', JStr ''Entry successfully submitted!''),
                             (''visual_links'', visual_links),
                             (''entry_id'', JNum (int insertId))])
                     | Inl err \<Rightarrow>
                         (evs @ [DbExecute InsertSubmission vals]
                            @ (if visual_links_column_issue err
                               then [DbExecute ShowColumnsVisualLinks []] else []),
                          insert_error_response w err))))"

section \<open>The route\<close>

text \<open>
  The application registers no error-handling middleware, so an error that a middleware
  passes on is answered by the framework's final handler: with the error's own
  \<open>status\<close> when that is a number from 400 to 599, and with 500 otherwise.
\<close>

definition final_handler :: "js_error \<Rightarrow> response" where
  "final_handler err =
     \<lparr>statusCode =
        (case status err of
           None \<Rightarrow> 500
         | Some st \<Rightarrow> if 400 \<le> st \<and> st \<le> 599 then st else 500),
      payload = ErrorPage err\<rparr>"

definition post_submit_entry :: "world \<Rightarrow> raw_request \<Rightarrow> event list \<times> response" where
  "post_submit_entry w raw =
     (case upload_array raw of
        Inl err \<Rightarrow> ([], final_handler err)
      | Inr req \<Rightarrow> submit_entry w req)"

section \<open>Reading a run\<close>

definition is_insert :: "event \<Rightarrow> bool" where
  "is_insert e = (case e of DbExecute q vals \<Rightarrow> q = InsertSubmission | _ \<Rightarrow> False)"

definition is_db :: "event \<Rightarrow> bool" where
  "is_db e = (case e of DbExecute q vals \<Rightarrow> True | _ \<Rightarrow> False)"

definition is_upload :: "event \<Rightarrow> bool" where
  "is_upload e =
     (case e of Call_uploadMultipleFilesToS3 n \<Rightarrow> True | S3Send p \<Rightarrow> True | _ \<Rightarrow> False)"

text \<open>No upload call is made once a statement has been executed.\<close>

fun uploads_before_db :: "event list \<Rightarrow> bool" where
  "uploads_before_db [] = True"
| "uploads_before_db (e # es) =
     (if is_db e then list_all (\<lambda>x. \<not> is_upload x) es else uploads_before_db es)"

definition is_client_error :: "nat \<Rightarrow> bool" where
  "is_client_error st = (400 \<le> st \<and> st \<le> 499)"

text \<open>The reference URL of the \<open>i\<close>-th attachment.\<close>

definition reference_urls :: "world \<Rightarrow> multer_file list \<Rightarrow> string list" where
  "reference_urls w fs = map (\<lambda>(i, f). s3_url w (fileName_of w i f)) (enumerate 0 fs)"

text \<open>The handler's test of the two required fields, on a request.\<close>

definition required_missing :: "request \<Rightarrow> bool" where
  "required_missing req =
     (case body req of
        None \<Rightarrow> True
      | Some b \<Rightarrow> \<not> truthy (field b ''full_name'') \<or> \<not> truthy (field b ''email_address''))"

section \<open>The validator as the specification words it\<close>

text \<open>
  The specification's validator: a required field is present when it is a string that
  is non-empty after trimming surrounding whitespace. This definition follows the
  specification, not the handler; it is compared with the handler below.
\<close>

definition is_whitespace :: "char \<Rightarrow> bool" where
  "is_whitespace c =
     (c \<in> set [CHR 0x20, CHR 0x09, CHR 0x0A, CHR 0x0B, CHR 0x0C, CHR 0x0D])"

definition trim :: "string \<Rightarrow> string" where
  "trim s = rev (dropWhile is_whitespace (rev (dropWhile is_whitespace s)))"

definition spec_present :: "jsval \<Rightarrow> bool" where
  "spec_present v = (case v of JStr s \<Rightarrow> trim s \<noteq> [] | _ \<Rightarrow> False)"

definition spec_validator_accepts :: "jsobject \<Rightarrow> bool" where
  "spec_validator_accepts b =
     (spec_present (field b ''full_name'') \<and> spec_present (field b ''email_address''))"

section \<open>Sample requests and worlds\<close>

definition identity_only :: jsobject where
  "identity_only = [(''full_name'', JStr ''Jane Doe''), (''email_address'', JStr ''jane@x.com'')]"

definition optional_fields :: jsobject where
  "optional_fields =
     (''submission_capacity'', JStr ''Freelancer'')
       # map (\<lambda>k. (k, JStr []))
           (filter (\<lambda>k. k \<notin> set [''full_name'', ''email_address'', ''submission_capacity'',
                                  ''visual_links''])
              insert_columns)"

definition jane :: jsobject where
  "jane = identity_only @ optional_fields"

definition blank :: jsobject where
  "blank = [(''full_name'', JStr '' ''), (''email_address'', JStr '' '')] @ optional_fields"

definition photo :: multer_file where
  "photo = \<lparr>originalname = ''a.png'', mimetype = ''image/png'', buffer = [137, 80]\<rparr>"

definition scan :: multer_file where
  "scan = \<lparr>originalname = ''b.jpg'', mimetype = ''image/jpeg'', buffer = [255, 216]\<rparr>"

definition animation :: multer_file where
  "animation = \<lparr>originalname = ''c.gif'', mimetype = ''image/gif'', buffer = [71, 73]\<rparr>"

definition calm :: world where
  "calm =
     \<lparr>process_env = minimal_env,
      Date_now = (\<lambda>i. 1700000000000 + i),
      Math_random_36 = (\<lambda>i. ''0.4fzyo82mvyr''),
      s3_outcome = (\<lambda>i. (i, None)),
      store_insert = (\<lambda>vals. Inr 42)\<rparr>"

definition access_denied :: js_error where
  "access_denied = new_Error ''AccessDenied: arn:aws:iam::123456789012:user/cca''"

definition timed_out :: js_error where
  "timed_out = new_Error ''connect ETIMEDOUT 10.0.0.7:443''"

definition lost_connection :: js_error where
  "lost_connection =
     \<lparr>message = ''connect ECONNREFUSED 10.0.0.5:3306'', code = Some ''ECONNREFUSED'',
      sqlMessage = None, status = None\<rparr>"

definition lock_timeout :: js_error where
  "lock_timeout =
     \<lparr>message = ''Lock wait timeout exceeded'', code = Some ''ER_LOCK_WAIT_TIMEOUT'',
      sqlMessage = Some ''Lock wait timeout exceeded'', status = None\<rparr>"

text \<open>A world in the given mode whose second upload fails with the given error.\<close>

definition storage_failing :: "string \<Rightarrow> js_error \<Rightarrow> world" where
  "storage_failing mode e =
     calm\<lparr>process_env := minimal_env(''NODE_ENV'' \<mapsto> mode),
          s3_outcome := (\<lambda>i. (i, if i = 1 then Some e else None))\<rparr>"

text \<open>A world in the given mode whose store refuses every insert with the given error.\<close>

definition store_failing :: "string \<Rightarrow> js_error \<Rightarrow> world" where
  "store_failing mode e =
     calm\<lparr>process_env := minimal_env(''NODE_ENV'' \<mapsto> mode),
          store_insert := (\<lambda>vals. Inl e)\<rparr>"

section \<open>The handler in stages\<close>

text \<open>The value of \<open>visual_links\<close> when every upload of the request succeeds.\<close>

definition joined_links :: "world \<Rightarrow> multer_file list \<Rightarrow> jsval" where
  "joined_links w fs = JStr (join '','' (reference_urls w fs))"

definition success_response :: "jsval \<Rightarrow> nat \<Rightarrow> response" where
  "success_response visual_links insertId =
     res_json 200
       [(''message'', JStr ''Entry successfully submitted!''),
        (''visual_links'', visual_links),
        (''entry_id'', JNum (int insertId))]"

text \<open>
  The rest of the handler once both guards have passed and \<open>visual_links\<close> is set:
  the insert and the two answers it leads to.
\<close>

definition persist :: "world \<Rightarrow> jsobject \<Rightarrow> event list \<Rightarrow> jsval \<Rightarrow> event list \<times> response" where
  "persist w b evs visual_links =
     (case execute_insert w (insert_values b visual_links) of
        Inr insertId \<Rightarrow>
          (evs @ [DbExecute InsertSubmission (insert_values b visual_links)],
           success_response visual_links insertId)
      | Inl err \<Rightarrow>
          (evs @ [DbExecute InsertSubmission (insert_values b visual_links)]
             @ (if visual_links_column_issue err
                then [DbExecute ShowColumnsVisualLinks []] else []),
           insert_error_response w err))"

section \<open>Startup\<close>

lemma missingVars_empty_iff:
  "missingVars penv = [] \<longleftrightarrow> (\<forall>v \<in> set requiredEnvVars. \<not> env_falsy penv v)"
  by (simp add: missingVars_def filter_empty_conv)

text \<open>
  C9, as amended. At startup the seven variables of \<open>requiredEnvVars\<close> (storage
  credentials, bucket, database host, user, password and schema name) are checked to be
  set and non-empty. The process exits with code 1 before serving exactly when one of
  them is missing, after printing one line per missing variable, in the order of the
  list. The region, the database port, the listening port and the mode flag are not
  checked: when unset they fall back to a default (the mode flag to none) and the
  server starts.
\<close>

theorem startup_checks_required_only:
  "(is_exit (startup penv) \<longleftrightarrow> (\<exists>v \<in> set requiredEnvVars. env_falsy penv v))
   \<and> (is_exit (startup penv) \<longrightarrow>
        startup penv
          = Exited 1 (missing_header
               # map (\<lambda>v. ''   - '' @ v) (filter (env_falsy penv) requiredEnvVars)))
   \<and> (\<not> is_exit (startup penv) \<longrightarrow>
        startup penv = Listening (load_config penv)
        \<and> aws_region (load_config penv) = env_or penv ''AWS_REGION'' ''ap-south-1''
        \<and> db_port (load_config penv) = env_or penv ''DB_PORT'' ''3306''
        \<and> listen_port (load_config penv) = env_or penv ''PORT'' ''3001'')"
proof -
  have exits: "is_exit (startup penv) \<longleftrightarrow> missingVars penv \<noteq> []"
    by (simp add: startup_def is_exit_def)
  have listed: "missingVars penv = filter (env_falsy penv) requiredEnvVars"
    by (simp add: missingVars_def)
  show ?thesis
    using missingVars_empty_iff [of penv] exits listed
    by (auto simp: startup_def load_config_def)
qed

theorem startup_checks_required_only_witness:
  "is_exit (startup (minimal_env(''DB_PASS'' := None, ''DB_HOST'' \<mapsto> [])))
   \<and> startup (minimal_env(''DB_PASS'' := None, ''DB_HOST'' \<mapsto> []))
       = Exited 1 [missing_header, ''   - DB_HOST'', ''   - DB_PASS'']"
  using startup_checks_required_only [of "minimal_env(''DB_PASS'' := None, ''DB_HOST'' \<mapsto> [])"]
  by (simp add: minimal_env_def requiredEnvVars_def env_falsy_def)

text \<open>
  C9 as stated fails: with the seven required variables set and the region, both ports
  and the mode flag unset, four items of the configuration surface are missing and the
  process does not halt.
\<close>

theorem unvalidated_configuration_counterexample:
  "''AWS_REGION'' \<in> set configuration_surface \<and> env_falsy minimal_env ''AWS_REGION''
   \<and> ''DB_PORT'' \<in> set configuration_surface \<and> env_falsy minimal_env ''DB_PORT''
   \<and> ''PORT'' \<in> set configuration_surface \<and> env_falsy minimal_env ''PORT''
   \<and> ''NODE_ENV'' \<in> set configuration_surface \<and> env_falsy minimal_env ''NODE_ENV''
   \<and> \<not> is_exit (startup minimal_env)"
  by (simp add: configuration_surface_def env_falsy_def minimal_env_def startup_def
        missingVars_def requiredEnvVars_def is_exit_def)

section \<open>The guards of the handler\<close>

text \<open>
  C10. When the parsed body is absent or has no field at all, the handler answers 400
  with the message "No form data received ...", which is not the message of the
  required-field check; nothing else of the request or of the world is looked at, and
  no upload and no insert is made (the run has no event).
\<close>

theorem empty_body_rejected_first:
  assumes "body req = None \<or> (\<exists>b. body req = Some b \<and> Object_keys b = [])"
  shows "submit_entry w req = ([], res_json 400 [(''message'', JStr no_form_data_message)])
         \<and> no_form_data_message \<noteq> missing_fields_message"
proof -
  have distinct: "no_form_data_message \<noteq> missing_fields_message"
    by (simp add: no_form_data_message_def missing_fields_message_def)
  from assms show ?thesis
  proof
    assume "body req = None"
    then show ?thesis using distinct by (simp add: submit_entry_def)
  next
    assume "\<exists>b. body req = Some b \<and> Object_keys b = []"
    then obtain b where "body req = Some b" and "Object_keys b = []" by blast
    then show ?thesis using distinct by (simp add: submit_entry_def)
  qed
qed

theorem empty_body_rejected_first_witness:
  "submit_entry calm \<lparr>body = Some [], files = Some [photo]\<rparr>
     = ([], res_json 400 [(''message'', JStr no_form_data_message)])
   \<and> submit_entry calm \<lparr>body = None, files = None\<rparr>
     = ([], res_json 400 [(''message'', JStr no_form_data_message)])"
  using empty_body_rejected_first [of "\<lparr>body = Some [], files = Some [photo]\<rparr>" calm]
    empty_body_rejected_first [of "\<lparr>body = None, files = None\<rparr>" calm]
  by (simp add: Object_keys_def)

text \<open>
  C2, as amended. When \<open>full_name\<close> or \<open>email_address\<close> is missing (absent, or a
  value JavaScript treats as false), the handler answers 400 and makes no upload and
  no insert. The message names the two required fields, except when the body is absent
  or has no field at all: then it is the "No form data received" message.
\<close>

theorem missing_required_rejected:
  assumes "required_missing req"
  shows "submit_entry w req
           = ([], res_json 400
                 [(''message'',
                   JStr (if body req = None \<or> body req = Some []
                         then no_form_data_message else missing_fields_message))])"
proof (cases "body req")
  case None
  then show ?thesis by (simp add: submit_entry_def)
next
  case (Some b)
  show ?thesis
  proof (cases "b = []")
    case True
    with Some show ?thesis by (simp add: submit_entry_def Object_keys_def)
  next
    case False
    moreover from assms Some
    have "\<not> truthy (field b ''full_name'') \<or> \<not> truthy (field b ''email_address'')"
      by (simp add: required_missing_def)
    ultimately show ?thesis using Some by (simp add: submit_entry_def Object_keys_def)
  qed
qed

theorem missing_required_rejected_witness:
  "required_missing \<lparr>body = Some [(''full_name'', JStr ''Jane Doe'')], files = Some [photo]\<rparr>
   \<and> submit_entry calm \<lparr>body = Some [(''full_name'', JStr ''Jane Doe'')], files = Some [photo]\<rparr>
       = ([], res_json 400 [(''message'', JStr missing_fields_message)])"
  using missing_required_rejected
    [of "\<lparr>body = Some [(''full_name'', JStr ''Jane Doe'')], files = Some [photo]\<rparr>" calm]
  by (simp add: required_missing_def field_def)

text \<open>
  C2 as stated fails on the message: a body with no field misses both required fields,
  and the answer does not name them.
\<close>

theorem empty_body_message_counterexample:
  "\<not> (required_missing \<lparr>body = Some [], files = None\<rparr> \<longrightarrow>
        snd (submit_entry calm \<lparr>body = Some [], files = None\<rparr>)
          = res_json 400 [(''message'', JStr missing_fields_message)])"
  by (simp add: required_missing_def field_def submit_entry_def Object_keys_def res_json_def
        no_form_data_message_def missing_fields_message_def)

section \<open>The upload middleware and the uploader\<close>

lemma accept_files_allowed:
  "\<forall>f \<in> set fs. mimetype f \<in> set allowedMimes \<Longrightarrow> accept_files fs = Inr fs"
  by (induction fs) (simp_all add: fileFilter_def)

lemma accept_files_disallowed:
  "\<exists>f \<in> set fs. mimetype f \<notin> set allowedMimes \<Longrightarrow>
   accept_files fs = Inl (new_Error invalid_file_type_message)"
proof (induction fs)
  case Nil
  then show ?case by simp
next
  case (Cons f fs)
  show ?case
  proof (cases "mimetype f \<in> set allowedMimes")
    case True
    with Cons.prems have "\<exists>g \<in> set fs. mimetype g \<notin> set allowedMimes" by auto
    with Cons.IH True show ?thesis by (simp add: fileFilter_def)
  next
    case False
    then show ?thesis by (simp add: fileFilter_def)
  qed
qed

lemma Promise_all_fulfilled:
  "Promise_all (map (\<lambda>x. (t x, Inr (g x))) xs) = Inr (map g xs)"
proof -
  have "rejections (map (\<lambda>x. (t x, Inr (g x))) xs) = []"
    by (induction xs) (simp_all add: rejections_def)
  moreover have "fulfilled (map (\<lambda>x. (t x, Inr (g x))) xs) = map g xs"
    by (induction xs) (simp_all add: fulfilled_def)
  ultimately show ?thesis by (simp add: Promise_all_def)
qed

lemma earliest_member: "earliest r xs \<in> set (r # xs)"
  by (induction xs arbitrary: r) (auto split: if_splits)

lemma rejections_member:
  "(t, e) \<in> set (rejections ps) \<longleftrightarrow> (t, Inl e) \<in> set ps"
  by (induction ps) (auto simp: rejections_def split: sum.splits)

lemma Promise_all_rejected:
  assumes "(t, Inl e) \<in> set ps"
  shows "\<exists>t' e'. Promise_all ps = Inl e' \<and> (t', Inl e') \<in> set ps"
proof -
  from assms have "(t, e) \<in> set (rejections ps)" by (simp add: rejections_member)
  then obtain r rs where rs: "rejections ps = r # rs" by (cases "rejections ps") auto
  have "earliest r rs \<in> set (rejections ps)" using earliest_member [of r rs] rs by simp
  then have "(fst (earliest r rs), Inl (snd (earliest r rs))) \<in> set ps"
    using rejections_member [of "fst (earliest r rs)" "snd (earliest r rs)" ps] by simp
  moreover have "Promise_all ps = Inl (snd (earliest r rs))"
    using rs by (simp add: Promise_all_def)
  ultimately show ?thesis by blast
qed

lemma promises_when_all_succeed:
  assumes "\<forall>i < length fs. snd (s3_outcome w i) = None"
  shows "map snd (upload_calls w fs)
           = map (\<lambda>x. (fst (s3_outcome w (fst x)), Inr (s3_url w (fileName_of w (fst x) (snd x)))))
               (enumerate 0 fs)"
  using assms
  by (auto simp: upload_calls_def uploadToS3_def in_set_enumerate_eq)

lemma reference_urls_alt:
  "reference_urls w fs = map (\<lambda>x. s3_url w (fileName_of w (fst x) (snd x))) (enumerate 0 fs)"
  by (simp add: reference_urls_def case_prod_beta)

lemma uploader_success:
  assumes "fs \<noteq> []" and "\<forall>i < length fs. snd (s3_outcome w i) = None"
  shows "uploadMultipleFilesToS3 w (Some fs)
           = (map fst (upload_calls w fs), Inr (JStr (join '','' (reference_urls w fs))))"
  using assms(1) promises_when_all_succeed [OF assms(2)]
  by (simp add: uploadMultipleFilesToS3_def Promise_all_fulfilled reference_urls_alt)

lemma promise_of_failed_upload:
  assumes "i < length fs" and "snd (s3_outcome w i) = Some e"
  shows "(fst (s3_outcome w i), Inl e) \<in> set (map snd (upload_calls w fs))"
proof -
  from assms(1) have "(i, fs ! i) \<in> set (enumerate 0 fs)"
    by (simp add: in_set_enumerate_eq)
  then have "snd (uploadToS3 w i (fs ! i) (fileName_of w i (fs ! i)))
               \<in> set (map snd (upload_calls w fs))"
    by (force simp: upload_calls_def)
  with assms(2) show ?thesis by (simp add: uploadToS3_def)
qed

lemma rejected_promise_is_failed_upload:
  assumes "(t, Inl e) \<in> set (map snd (upload_calls w fs))"
  shows "\<exists>i < length fs. snd (s3_outcome w i) = Some e"
proof -
  from assms obtain i f where mem: "(i, f) \<in> set (enumerate 0 fs)"
    and eq: "snd (uploadToS3 w i f (fileName_of w i f)) = (t, Inl e)"
    by (auto simp: upload_calls_def)
  from mem have "i < length fs" by (simp add: in_set_enumerate_eq)
  moreover from eq have "snd (s3_outcome w i) = Some e"
    by (auto simp: uploadToS3_def split: option.splits)
  ultimately show ?thesis by blast
qed

lemma uploader_failure:
  assumes "fs \<noteq> []" and "i < length fs" and "snd (s3_outcome w i) \<noteq> None"
  shows "\<exists>e. (\<exists>j < length fs. snd (s3_outcome w j) = Some e)
             \<and> uploadMultipleFilesToS3 w (Some fs) = (map fst (upload_calls w fs), Inl e)"
proof -
  from assms(3) obtain e0 where "snd (s3_outcome w i) = Some e0" by auto
  from promise_of_failed_upload [OF assms(2) this]
  obtain t' e' where all: "Promise_all (map snd (upload_calls w fs)) = Inl e'"
    and mem: "(t', Inl e') \<in> set (map snd (upload_calls w fs))"
    using Promise_all_rejected by blast
  from rejected_promise_is_failed_upload [OF mem]
  have "\<exists>j < length fs. snd (s3_outcome w j) = Some e'" .
  moreover from assms(1) all
  have "uploadMultipleFilesToS3 w (Some fs) = (map fst (upload_calls w fs), Inl e')"
    by (simp add: uploadMultipleFilesToS3_def)
  ultimately show ?thesis by blast
qed

lemma upload_calls_no_insert: "filter is_insert (map fst (upload_calls w fs)) = []"
  by (simp add: upload_calls_def uploadToS3_def is_insert_def filter_empty_conv case_prod_beta)

lemma upload_calls_no_db: "filter is_db (map fst (upload_calls w fs)) = []"
  by (simp add: upload_calls_def uploadToS3_def is_db_def filter_empty_conv case_prod_beta)

lemma truthy_field_nonempty: "truthy (field b k) \<Longrightarrow> Object_keys b \<noteq> []"
  by (cases b) (simp_all add: field_def Object_keys_def)

section \<open>The handler past its guards\<close>

lemma submit_entry_past_guards:
  assumes "body req = Some b"
    and "truthy (field b ''full_name'')" and "truthy (field b ''email_address'')"
  shows "submit_entry w req =
           (case resolve_attachments w (files req) of
              (evs, Inl error) \<Rightarrow> (evs, processing_error_response error)
            | (evs, Inr visual_links) \<Rightarrow> persist w b evs visual_links)"
  using assms truthy_field_nonempty [OF assms(2)]
  by (simp add: submit_entry_def persist_def success_response_def Let_def
        split: prod.splits sum.splits)

lemma persist_inserts_once:
  assumes "filter is_insert evs = []"
  shows "filter is_insert (fst (persist w b evs vl))
           = [DbExecute InsertSubmission (insert_values b vl)]"
  using assms by (simp add: persist_def is_insert_def split: sum.splits)

lemma persist_success:
  "execute_insert w (insert_values b vl) = Inr insertId \<Longrightarrow>
   snd (persist w b evs vl) = success_response vl insertId"
  by (simp add: persist_def)

lemma persist_failure:
  "execute_insert w (insert_values b vl) = Inl err \<Longrightarrow>
   snd (persist w b evs vl) = insert_error_response w err"
  by (simp add: persist_def)

lemma resolve_with_files_ok:
  assumes "fs \<noteq> []" and "\<forall>i < length fs. snd (s3_outcome w i) = None"
  shows "resolve_attachments w (Some fs)
           = (Call_uploadMultipleFilesToS3 (length fs) # map fst (upload_calls w fs),
              Inr (joined_links w fs))"
  using assms(1) uploader_success [OF assms]
  by (simp add: resolve_attachments_def has_files_def joined_links_def)

lemma resolve_with_files_failed:
  assumes "fs \<noteq> []" and "i < length fs" and "snd (s3_outcome w i) \<noteq> None"
  shows "\<exists>e. (\<exists>j < length fs. snd (s3_outcome w j) = Some e)
             \<and> resolve_attachments w (Some fs)
                 = (Call_uploadMultipleFilesToS3 (length fs) # map fst (upload_calls w fs), Inl e)"
proof -
  from uploader_failure [OF assms] obtain e
    where "\<exists>j < length fs. snd (s3_outcome w j) = Some e"
      and "uploadMultipleFilesToS3 w (Some fs) = (map fst (upload_calls w fs), Inl e)"
    by blast
  with assms(1) show ?thesis
    by (auto simp: resolve_attachments_def has_files_def)
qed

lemma resolve_without_files:
  "files_opt = None \<or> files_opt = Some [] \<Longrightarrow> resolve_attachments w files_opt = ([], Inr JNull)"
  by (auto simp: resolve_attachments_def has_files_def)

lemma insert_values_visual_links: "insert_values b vl ! 23 = vl"
  by (simp add: insert_values_def)

lemma insert_columns_visual_links: "insert_columns ! 23 = ''visual_links''"
  by (simp add: insert_columns_def)

lemma reference_urls_nth:
  "k < length fs \<Longrightarrow> reference_urls w fs ! k = s3_url w (fileName_of w k (fs ! k))"
  by (simp add: reference_urls_def nth_enumerate_eq)

text \<open>
  C1. A multipart request with \<open>N \<ge> 1\<close> attachments, all of allowed media types,
  whose required fields are present and whose uploads all succeed: there are \<open>N\<close>
  reference URLs, the \<open>k\<close>-th being the URL of the \<open>k\<close>-th attachment;
  \<open>visual_links\<close> is these URLs joined with a comma; the insert is executed exactly
  once, with that value bound to the \<open>visual_links\<close> column; and when the insert
  succeeds the answer is 200 and carries the same value.
\<close>

theorem uploaded_links_joined_in_order:
  assumes "fs \<noteq> []"
    and "\<forall>f \<in> set fs. mimetype f \<in> set allowedMimes"
    and "truthy (field b ''full_name'')" and "truthy (field b ''email_address'')"
    and "\<forall>i < length fs. snd (s3_outcome w i) = None"
  shows "length (reference_urls w fs) = length fs
         \<and> (\<forall>k < length fs. reference_urls w fs ! k = s3_url w (fileName_of w k (fs ! k)))
         \<and> joined_links w fs = JStr (join '','' (reference_urls w fs))
         \<and> filter is_insert (fst (post_submit_entry w (Multipart b fs)))
             = [DbExecute InsertSubmission (insert_values b (joined_links w fs))]
         \<and> insert_columns ! 23 = ''visual_links''
         \<and> insert_values b (joined_links w fs) ! 23 = joined_links w fs
         \<and> (\<forall>insertId.
               execute_insert w (insert_values b (joined_links w fs)) = Inr insertId \<longrightarrow>
               snd (post_submit_entry w (Multipart b fs))
                 = success_response (joined_links w fs) insertId)"
proof -
  let ?req = "\<lparr>body = Some b, files = Some fs\<rparr>"
  let ?ups = "Call_uploadMultipleFilesToS3 (length fs) # map fst (upload_calls w fs)"
  have route: "post_submit_entry w (Multipart b fs) = submit_entry w ?req"
    using accept_files_allowed [OF assms(2)]
    by (simp add: post_submit_entry_def upload_array_def)
  have run: "submit_entry w ?req = persist w b ?ups (joined_links w fs)"
    using submit_entry_past_guards [of ?req b w] assms(3,4)
      resolve_with_files_ok [OF assms(1,5)]
    by simp
  have quiet: "filter is_insert ?ups = []"
    using upload_calls_no_insert [of w fs] by (simp add: is_insert_def)
  have once: "filter is_insert (fst (post_submit_entry w (Multipart b fs)))
                = [DbExecute InsertSubmission (insert_values b (joined_links w fs))]"
    using route run persist_inserts_once [OF quiet] by simp
  have echoed: "\<forall>insertId.
      execute_insert w (insert_values b (joined_links w fs)) = Inr insertId \<longrightarrow>
      snd (post_submit_entry w (Multipart b fs)) = success_response (joined_links w fs) insertId"
    using route run persist_success by simp
  have count: "length (reference_urls w fs) = length fs"
    by (simp add: reference_urls_def)
  show ?thesis
    using count reference_urls_nth once echoed insert_values_visual_links
      insert_columns_visual_links
    by (simp add: joined_links_def)
qed

section \<open>The order of calls\<close>

lemma uploads_before_db_no_db: "filter is_db evs = [] \<Longrightarrow> uploads_before_db evs"
  by (induction evs) (auto split: if_splits)

lemma uploads_before_db_then_db:
  "filter is_db us = [] \<Longrightarrow> list_all (\<lambda>x. \<not> is_upload x) ds \<Longrightarrow> uploads_before_db (us @ ds)"
proof (induction us)
  case Nil
  then show ?case by (induction ds) (auto simp: list_all_iff)
next
  case (Cons u us)
  then show ?case by (auto split: if_splits)
qed

lemma persist_ordered:
  assumes "filter is_db evs = []"
  shows "uploads_before_db (fst (persist w b evs vl))"
proof (cases "execute_insert w (insert_values b vl)")
  case (Inl err)
  then have "fst (persist w b evs vl)
      = evs @ (DbExecute InsertSubmission (insert_values b vl)
                # (if visual_links_column_issue err
                   then [DbExecute ShowColumnsVisualLinks []] else []))"
    by (simp add: persist_def)
  then show ?thesis
    using uploads_before_db_then_db [OF assms] by (simp add: is_upload_def)
next
  case (Inr insertId)
  then have "fst (persist w b evs vl) = evs @ [DbExecute InsertSubmission (insert_values b vl)]"
    by (simp add: persist_def)
  then show ?thesis
    using uploads_before_db_then_db [OF assms] by (simp add: is_upload_def)
qed

section \<open>A run with two attachments\<close>

lemma jane_fields:
  "field jane ''full_name'' = JStr ''Jane Doe''"
  "field jane ''email_address'' = JStr ''jane@x.com''"
  by (simp_all add: jane_def identity_only_def field_def)

lemma jane_values:
  "insert_values jane vl =
     [JStr ''Jane Doe'', JStr ''jane@x.com'', JStr [], JStr ''Freelancer'', JStr [], JStr [],
      JStr [], JStr [], JStr [], JStr [], JStr [], JStr [], JStr [], JStr [], JStr [],
      JStr [], JStr [], JStr [], JStr [], JStr [], JStr [], JStr [], JStr [], vl, JStr []]"
  by (simp add: insert_values_def jane_def identity_only_def optional_fields_def
        insert_columns_def field_def)

lemma sample_keys:
  "fileName_of calm 0 photo = ''ccapatrika/1700000000000-4fzyo82mvyr-a.png''"
  "fileName_of calm 1 scan = ''ccapatrika/1700000000001-4fzyo82mvyr-b.jpg''"
  by (simp_all add: fileName_of_def calm_def photo_def scan_def digit_char_def)

lemma sample_urls:
  "reference_urls calm [photo, scan] =
     [''https://bucket.s3.us-east-1.amazonaws.com/ccapatrika/1700000000000-4fzyo82mvyr-a.png'',
      ''https://bucket.s3.us-east-1.amazonaws.com/ccapatrika/1700000000001-4fzyo82mvyr-b.jpg'']"
proof -
  have "s3_url calm k = ''https://bucket.s3.us-east-1.amazonaws.com/'' @ k" for k
    by (simp add: s3_url_def S3_BUCKET_NAME_def env_or_def env_falsy_def calm_def
          minimal_env_def)
  then show ?thesis
    using sample_keys by (simp add: reference_urls_def enumerate_eq_zip upt_rec)
qed

theorem uploaded_links_joined_in_order_witness:
  "joined_links calm [photo, scan] =
     JStr ''https://bucket.s3.us-east-1.amazonaws.com/ccapatrika/1700000000000-4fzyo82mvyr-a.png,https://bucket.s3.us-east-1.amazonaws.com/ccapatrika/1700000000001-4fzyo82mvyr-b.jpg''
   \<and> length (filter is_insert (fst (post_submit_entry calm (Multipart jane [photo, scan])))) = 1
   \<and> snd (post_submit_entry calm (Multipart jane [photo, scan]))
       = success_response (joined_links calm [photo, scan]) 42"
proof -
  have files: "[photo, scan] \<noteq> []" by simp
  have allowed: "\<forall>f \<in> set [photo, scan]. mimetype f \<in> set allowedMimes"
    by (simp add: photo_def scan_def allowedMimes_def)
  have name: "truthy (field jane ''full_name'')" by (simp add: jane_fields)
  have email: "truthy (field jane ''email_address'')" by (simp add: jane_fields)
  have ok: "\<forall>i < length [photo, scan]. snd (s3_outcome calm i) = None"
    by (simp add: calm_def)
  have stored: "execute_insert calm (insert_values jane (joined_links calm [photo, scan])) = Inr 42"
    by (simp add: execute_insert_def jane_values joined_links_def calm_def)
  show ?thesis
    using uploaded_links_joined_in_order [OF files allowed name email ok] stored sample_urls
    by simp
qed

section \<open>Failed uploads\<close>

text \<open>
  C3. A request past the guards with at least one attachment. If any upload fails, the
  answer is the 500 "Error processing submission." response, built from the error of
  one of the failed uploads, and no statement is executed. A statement is executed
  only when every upload has succeeded, and in every run no upload call follows a
  call to the database.
\<close>

theorem failed_upload_fails_request:
  assumes "body req = Some b"
    and "truthy (field b ''full_name'')" and "truthy (field b ''email_address'')"
    and "files req = Some fs" and "fs \<noteq> []"
  shows "((\<exists>i < length fs. snd (s3_outcome w i) \<noteq> None) \<longrightarrow>
            statusCode (snd (submit_entry w req)) = 500
            \<and> (\<exists>e. (\<exists>i < length fs. snd (s3_outcome w i) = Some e)
                    \<and> snd (submit_entry w req) = processing_error_response e)
            \<and> filter is_db (fst (submit_entry w req)) = [])
         \<and> (filter is_db (fst (submit_entry w req)) \<noteq> [] \<longrightarrow>
              (\<forall>i < length fs. snd (s3_outcome w i) = None))
         \<and> uploads_before_db (fst (submit_entry w req))"
proof -
  let ?ups = "Call_uploadMultipleFilesToS3 (length fs) # map fst (upload_calls w fs)"
  have quiet: "filter is_db ?ups = []"
    using upload_calls_no_db [of w fs] by (simp add: is_db_def)
  have failing: "statusCode (snd (submit_entry w req)) = 500
        \<and> (\<exists>e. (\<exists>i < length fs. snd (s3_outcome w i) = Some e)
                \<and> snd (submit_entry w req) = processing_error_response e)
        \<and> filter is_db (fst (submit_entry w req)) = []
        \<and> uploads_before_db (fst (submit_entry w req))"
    if "i < length fs" and "snd (s3_outcome w i) \<noteq> None" for i
  proof -
    from resolve_with_files_failed [OF assms(5) that] obtain e
      where some: "\<exists>j < length fs. snd (s3_outcome w j) = Some e"
        and res: "resolve_attachments w (Some fs) = (?ups, Inl e)"
      by blast
    have run: "submit_entry w req = (?ups, processing_error_response e)"
      using submit_entry_past_guards [OF assms(1,2,3), of w] assms(4) res by simp
    have "uploads_before_db ?ups"
      using quiet uploads_before_db_no_db by blast
    with run some quiet show ?thesis
      by (auto simp: processing_error_response_def res_json_def)
  qed
  have succeeding: "uploads_before_db (fst (submit_entry w req))"
    if "\<forall>i < length fs. snd (s3_outcome w i) = None"
  proof -
    have "submit_entry w req = persist w b ?ups (joined_links w fs)"
      using submit_entry_past_guards [OF assms(1,2,3), of w] assms(4)
        resolve_with_files_ok [OF assms(5) that]
      by simp
    then show ?thesis using persist_ordered [OF quiet] by simp
  qed
  show ?thesis
  proof (cases "\<exists>i < length fs. snd (s3_outcome w i) \<noteq> None")
    case True
    then obtain i where "i < length fs" and "snd (s3_outcome w i) \<noteq> None" by blast
    from failing [OF this] True show ?thesis by simp
  next
    case False
    then have "\<forall>i < length fs. snd (s3_outcome w i) = None" by simp
    from succeeding [OF this] this show ?thesis by auto
  qed
qed

theorem failed_upload_fails_request_witness:
  "statusCode (snd (submit_entry (storage_failing ''production'' timed_out)
                      \<lparr>body = Some jane, files = Some [photo, scan]\<rparr>)) = 500
   \<and> snd (submit_entry (storage_failing ''production'' timed_out)
             \<lparr>body = Some jane, files = Some [photo, scan]\<rparr>)
       = processing_error_response timed_out
   \<and> filter is_db (fst (submit_entry (storage_failing ''production'' timed_out)
                           \<lparr>body = Some jane, files = Some [photo, scan]\<rparr>)) = []"
proof -
  let ?w = "storage_failing ''production'' timed_out"
  let ?req = "\<lparr>body = Some jane, files = Some [photo, scan]\<rparr>"
  have name: "truthy (field jane ''full_name'')" by (simp add: jane_fields)
  have email: "truthy (field jane ''email_address'')" by (simp add: jane_fields)
  have outcomes: "snd (s3_outcome ?w i) = (if i = 1 then Some timed_out else None)" for i
    by (simp add: storage_failing_def)
  have fails: "\<exists>i < length [photo, scan]. snd (s3_outcome ?w i) \<noteq> None"
    using outcomes by auto
  have only: "(\<exists>i < length [photo, scan]. snd (s3_outcome ?w i) = Some e) \<longleftrightarrow> e = timed_out" for e
    using outcomes by auto
  show ?thesis
    using failed_upload_fails_request [of ?req jane "[photo, scan]" ?w] name email fails only
    by auto
qed

section \<open>Requests without attachments\<close>

text \<open>
  C5. A request past the guards with no attachment (\<open>req.files\<close> absent or empty):
  the uploader is not called and nothing is sent to storage; the insert is executed
  once with \<open>null\<close> bound to the \<open>visual_links\<close> column; and when the insert
  succeeds the run is that one insert and the answer is 200 with the message
  "Entry successfully submitted!", \<open>visual_links\<close> null and the generated identifier.
\<close>

theorem no_attachments_no_uploader:
  assumes "body req = Some b"
    and "truthy (field b ''full_name'')" and "truthy (field b ''email_address'')"
    and "files req = None \<or> files req = Some []"
  shows "filter is_upload (fst (submit_entry w req)) = []
         \<and> filter is_insert (fst (submit_entry w req))
             = [DbExecute InsertSubmission (insert_values b JNull)]
         \<and> insert_columns ! 23 = ''visual_links''
         \<and> insert_values b JNull ! 23 = JNull
         \<and> (\<forall>insertId.
               execute_insert w (insert_values b JNull) = Inr insertId \<longrightarrow>
               submit_entry w req
                 = ([DbExecute InsertSubmission (insert_values b JNull)],
                    res_json 200
                      [(''message'', JStr ''Entry successfully submitted!''),
                       (''visual_links'', JNull),
                       (''entry_id'', JNum (int insertId))]))"
proof -
  have run: "submit_entry w req = persist w b [] JNull"
    using submit_entry_past_guards [OF assms(1,2,3), of w] resolve_without_files [OF assms(4), of w]
    by simp
  have no_upload: "filter is_upload (fst (persist w b [] JNull)) = []"
    by (simp add: persist_def is_upload_def split: sum.splits)
  have once: "filter is_insert (fst (persist w b [] JNull))
                = [DbExecute InsertSubmission (insert_values b JNull)]"
    using persist_inserts_once [of "[]" w b JNull] by simp
  have answer: "persist w b [] JNull
                  = ([DbExecute InsertSubmission (insert_values b JNull)],
                     res_json 200
                       [(''message'', JStr ''Entry successfully submitted!''),
                        (''visual_links'', JNull),
                        (''entry_id'', JNum (int insertId))])"
    if "execute_insert w (insert_values b JNull) = Inr insertId" for insertId
    using that by (simp add: persist_def success_response_def)
  show ?thesis
    using run no_upload once answer insert_values_visual_links insert_columns_visual_links
    by simp
qed

theorem no_attachments_no_uploader_witness:
  "submit_entry calm \<lparr>body = Some jane, files = Some []\<rparr>
     = ([DbExecute InsertSubmission (insert_values jane JNull)],
        res_json 200
          [(''message'', JStr ''Entry successfully submitted!''),
           (''visual_links'', JNull),
           (''entry_id'', JNum 42)])
   \<and> filter is_upload (fst (submit_entry calm \<lparr>body = Some jane, files = Some []\<rparr>)) = []"
proof -
  have name: "truthy (field jane ''full_name'')" by (simp add: jane_fields)
  have email: "truthy (field jane ''email_address'')" by (simp add: jane_fields)
  have stored: "execute_insert calm (insert_values jane JNull) = Inr 42"
    by (simp add: execute_insert_def jane_values calm_def)
  show ?thesis
    using no_attachments_no_uploader [of "\<lparr>body = Some jane, files = Some []\<rparr>" jane calm]
      name email stored
    by (simp add: is_upload_def)
qed

section \<open>Attachments of a disallowed type\<close>

text \<open>
  C4, as amended. A multipart request in which some attachment has a media type outside
  the allow-list is ended by the upload middleware with the "Invalid file type" error
  before the handler runs: nothing is sent to storage and no statement is executed.
  The error carries no status and the application has no error handler, so the answer
  is the framework's, with status 500.
\<close>

theorem disallowed_type_stops_request:
  assumes "\<exists>f \<in> set fs. mimetype f \<notin> set allowedMimes"
  shows "post_submit_entry w (Multipart b fs)
           = ([], final_handler (new_Error invalid_file_type_message))
         \<and> statusCode (snd (post_submit_entry w (Multipart b fs))) = 500"
proof -
  have "upload_array (Multipart b fs) = Inl (new_Error invalid_file_type_message)"
    using accept_files_disallowed [OF assms] by (simp add: upload_array_def)
  then have "post_submit_entry w (Multipart b fs)
               = ([], final_handler (new_Error invalid_file_type_message))"
    by (simp add: post_submit_entry_def)
  moreover have "statusCode (final_handler (new_Error invalid_file_type_message)) = 500"
    by (simp add: final_handler_def new_Error_def)
  ultimately show ?thesis by simp
qed

theorem disallowed_type_stops_request_witness:
  "fst (post_submit_entry calm (Multipart jane [photo, animation])) = []
   \<and> statusCode (snd (post_submit_entry calm (Multipart jane [photo, animation]))) = 500"
proof -
  have "mimetype animation \<notin> set allowedMimes"
    by (simp add: animation_def allowedMimes_def)
  then have "\<exists>f \<in> set [photo, animation]. mimetype f \<notin> set allowedMimes" by simp
  from disallowed_type_stops_request [OF this, of calm jane] show ?thesis
    by (simp add: final_handler_def new_Error_def)
qed

text \<open>
  C4 as stated fails on the status: a request whose only attachment is a GIF is
  answered with a status that is not a client error.
\<close>

theorem disallowed_type_status_counterexample:
  "mimetype animation \<notin> set allowedMimes
   \<and> \<not> is_client_error (statusCode (snd (post_submit_entry calm (Multipart jane [animation]))))"
  by (simp add: animation_def allowedMimes_def post_submit_entry_def upload_array_def
        fileFilter_def final_handler_def new_Error_def is_client_error_def)

section \<open>The required-field check and the specification's validator\<close>

lemma past_guards_status:
  assumes "body req = Some b"
    and "truthy (field b ''full_name'')" and "truthy (field b ''email_address'')"
  shows "statusCode (snd (submit_entry w req)) = 200 \<or> statusCode (snd (submit_entry w req)) = 500"
proof -
  obtain evs r where res: "resolve_attachments w (files req) = (evs, r)"
    by (cases "resolve_attachments w (files req)")
  show ?thesis
  proof (cases r)
    case (Inl error)
    with res show ?thesis
      using submit_entry_past_guards [OF assms, of w]
      by (simp add: processing_error_response_def res_json_def)
  next
    case (Inr vl)
    with res have "submit_entry w req = persist w b evs vl"
      using submit_entry_past_guards [OF assms, of w] by simp
    then show ?thesis
      by (simp add: persist_def success_response_def insert_error_response_def res_json_def
            split: sum.splits)
  qed
qed

text \<open>
  C6, as amended. For a body with at least one field, the handler answers with the
  required-fields rejection exactly when \<open>full_name\<close> or \<open>email_address\<close> is a value
  JavaScript treats as false. For string fields that is exactly the empty string: the
  values are not trimmed, so a field made only of whitespace counts as present.
\<close>

theorem required_fields_checked_untrimmed:
  assumes "body req = Some b" and "b \<noteq> []"
  shows "(snd (submit_entry w req) = res_json 400 [(''message'', JStr missing_fields_message)]
            \<longleftrightarrow> \<not> truthy (field b ''full_name'') \<or> \<not> truthy (field b ''email_address''))
         \<and> (\<forall>n e. field b ''full_name'' = JStr n \<and> field b ''email_address'' = JStr e \<longrightarrow>
               (snd (submit_entry w req) = res_json 400 [(''message'', JStr missing_fields_message)]
                  \<longleftrightarrow> n = [] \<or> e = []))"
proof -
  let ?rejected = "snd (submit_entry w req) = res_json 400 [(''message'', JStr missing_fields_message)]"
  let ?missing = "\<not> truthy (field b ''full_name'') \<or> \<not> truthy (field b ''email_address'')"
  have "?rejected" if "?missing"
    using that assms by (simp add: submit_entry_def Object_keys_def)
  moreover have "\<not> ?rejected" if "\<not> ?missing"
  proof -
    from that have "truthy (field b ''full_name'')" and "truthy (field b ''email_address'')"
      by simp_all
    from past_guards_status [OF assms(1) this, of w] show ?thesis
      by (auto simp: res_json_def)
  qed
  ultimately have main: "?rejected \<longleftrightarrow> ?missing" by blast
  then show ?thesis by auto
qed

theorem required_fields_checked_untrimmed_witness:
  "snd (submit_entry calm \<lparr>body = Some blank, files = None\<rparr>)
     \<noteq> res_json 400 [(''message'', JStr missing_fields_message)]
   \<and> snd (submit_entry calm
            \<lparr>body = Some [(''full_name'', JStr []), (''email_address'', JStr ''jane@x.com'')],
              files = None\<rparr>)
     = res_json 400 [(''message'', JStr missing_fields_message)]"
proof -
  have blank_fields: "field blank ''full_name'' = JStr '' ''" "field blank ''email_address'' = JStr '' ''"
    by (simp_all add: blank_def field_def)
  have "blank \<noteq> []" by (simp add: blank_def)
  from required_fields_checked_untrimmed [of "\<lparr>body = Some blank, files = None\<rparr>" blank calm] this
  have first: "snd (submit_entry calm \<lparr>body = Some blank, files = None\<rparr>)
     \<noteq> res_json 400 [(''message'', JStr missing_fields_message)]"
    using blank_fields by simp
  let ?b = "[(''full_name'', JStr []), (''email_address'', JStr ''jane@x.com'')]"
  from required_fields_checked_untrimmed [of "\<lparr>body = Some ?b, files = None\<rparr>" ?b calm]
  have second: "snd (submit_entry calm \<lparr>body = Some ?b, files = None\<rparr>)
     = res_json 400 [(''message'', JStr missing_fields_message)]"
    by (simp add: field_def)
  from first second show ?thesis by simp
qed

lemma blank_values:
  "insert_values blank vl =
     [JStr '' '', JStr '' '', JStr [], JStr ''Freelancer'', JStr [], JStr [],
      JStr [], JStr [], JStr [], JStr [], JStr [], JStr [], JStr [], JStr [], JStr [],
      JStr [], JStr [], JStr [], JStr [], JStr [], JStr [], JStr [], JStr [], vl, JStr []]"
  by (simp add: insert_values_def blank_def optional_fields_def insert_columns_def field_def)

text \<open>
  C6 as stated fails: the specification's validator rejects a request whose two required
  fields are a single space, and the handler stores it and answers 200.
\<close>

theorem whitespace_name_accepted_counterexample:
  "\<not> spec_validator_accepts blank
   \<and> snd (submit_entry calm \<lparr>body = Some blank, files = None\<rparr>)
       = res_json 200
           [(''message'', JStr ''Entry successfully submitted!''),
            (''visual_links'', JNull),
            (''entry_id'', JNum 42)]"
proof -
  have blank_fields: "field blank ''full_name'' = JStr '' ''" "field blank ''email_address'' = JStr '' ''"
    by (simp_all add: blank_def field_def)
  have spec: "\<not> spec_validator_accepts blank"
    by (simp add: spec_validator_accepts_def spec_present_def blank_fields trim_def
          is_whitespace_def)
  have stored: "execute_insert calm (insert_values blank JNull) = Inr 42"
    by (simp add: execute_insert_def blank_values calm_def)
  have "submit_entry calm \<lparr>body = Some blank, files = None\<rparr> = persist calm blank [] JNull"
    using submit_entry_past_guards [of "\<lparr>body = Some blank, files = None\<rparr>" blank calm]
      resolve_without_files [of None calm]
    by (simp add: blank_fields)
  with stored spec show ?thesis
    by (simp add: persist_def success_response_def)
qed

section \<open>Absent optional fields\<close>

lemma insert_values_by_column:
  "insert_values b vl = map (\<lambda>c. if c = ''visual_links'' then vl else field b c) insert_columns"
  by (simp add: insert_values_def insert_columns_def)

lemma absent_field_is_undefined: "map_of b k = None \<Longrightarrow> field b k = JUndefined"
  by (simp add: field_def)

lemma type_error_is_no_column_issue:
  "\<not> visual_links_column_issue (new_TypeError bind_undefined_message)"
  by (simp add: visual_links_column_issue_def new_TypeError_def new_Error_def)

text \<open>
  C7, on the code. For a request past the guards with no attachment, if any column of
  the insert other than \<open>visual_links\<close> has no field in the body, the value bound
  for it is \<open>undefined\<close>; the driver refuses the statement, no row is written, and
  the answer is the 500 "Error saving the entry." response. The claim says the insert
  succeeds with a null in that column.
\<close>

theorem absent_optional_field_fails_insert:
  assumes "body req = Some b"
    and "truthy (field b ''full_name'')" and "truthy (field b ''email_address'')"
    and "files req = None \<or> files req = Some []"
    and "k \<in> set insert_columns" and "k \<noteq> ''visual_links''" and "map_of b k = None"
  shows "execute_insert w (insert_values b JNull) = Inl (new_TypeError bind_undefined_message)
         \<and> submit_entry w req
             = ([DbExecute InsertSubmission (insert_values b JNull)],
                insert_error_response w (new_TypeError bind_undefined_message))
         \<and> statusCode (snd (submit_entry w req)) = 500"
proof -
  have "field b k \<in> set (insert_values b JNull)"
    using assms(5,6) by (force simp: insert_values_by_column)
  then have "JUndefined \<in> set (insert_values b JNull)"
    using absent_field_is_undefined [OF assms(7)] by simp
  then have refused: "execute_insert w (insert_values b JNull)
                        = Inl (new_TypeError bind_undefined_message)"
    by (simp add: execute_insert_def)
  have "submit_entry w req = persist w b [] JNull"
    using submit_entry_past_guards [OF assms(1,2,3), of w] resolve_without_files [OF assms(4), of w]
    by simp
  then have run: "submit_entry w req
      = ([DbExecute InsertSubmission (insert_values b JNull)],
         insert_error_response w (new_TypeError bind_undefined_message))"
    using refused type_error_is_no_column_issue by (simp add: persist_def)
  have "statusCode (insert_error_response w (new_TypeError bind_undefined_message)) = 500"
    by (simp add: insert_error_response_def res_json_def)
  with refused run show ?thesis by simp
qed

theorem absent_optional_field_fails_insert_witness:
  "store_insert calm (insert_values identity_only JNull) = Inr 42
   \<and> insert_values identity_only JNull ! 2 = JUndefined
   \<and> snd (submit_entry calm \<lparr>body = Some identity_only, files = None\<rparr>)
       = res_json 500
           [(''message'', JStr ''Error saving the entry.''),
            (''error'', JStr ''Database error occurred'')]"
proof -
  have name: "truthy (field identity_only ''full_name'')"
    and email: "truthy (field identity_only ''email_address'')"
    by (simp_all add: identity_only_def field_def)
  have column: "''contact_number'' \<in> set insert_columns"
    by (simp add: insert_columns_def)
  have absent: "map_of identity_only ''contact_number'' = None"
    by (simp add: identity_only_def)
  have mode: "process_env calm ''NODE_ENV'' = None"
    by (simp add: calm_def minimal_env_def)
  have bound: "insert_values identity_only JNull ! 2 = JUndefined"
    using absent by (simp add: insert_values_def field_def)
  from absent_optional_field_fails_insert
    [of "\<lparr>body = Some identity_only, files = None\<rparr>" identity_only "''contact_number''" calm]
    name email column absent
  have "snd (submit_entry calm \<lparr>body = Some identity_only, files = None\<rparr>)
          = insert_error_response calm (new_TypeError bind_undefined_message)"
    by simp
  with mode bound show ?thesis
    by (simp add: insert_error_response_def calm_def)
qed

section \<open>The column list of the insert\<close>

text \<open>
  The columns the insert names are the columns of the \<open>submissions\<close> table as
  \<open>query.sql\<close> leaves it, without the generated \<open>id\<close>, in the table's order; the
  statement has one placeholder per column and one bound value per placeholder.
\<close>

theorem insert_columns_are_the_table:
  "insert_columns = map fst (filter (\<lambda>c. fst c \<noteq> ''id'') submissions)
   \<and> length insert_columns = 25
   \<and> length (insert_values b vl) = length insert_columns
   \<and> length (filter (\<lambda>c. c = CHR ''?'') (sql_text InsertSubmission)) = length insert_columns"
proof -
  have columns: "insert_columns = map fst (filter (\<lambda>c. fst c \<noteq> ''id'') submissions)"
    by (simp add: insert_columns_def submissions_def create_table_submissions_def
          change_column_def)
  have bound: "length (insert_values b vl) = 25"
    by (simp add: insert_values_def)
  have names: "length insert_columns = 25"
    by (simp add: insert_columns_def)
  have marks: "length (filter (\<lambda>c. c = CHR ''?'') (sql_text InsertSubmission)) = 25"
    by (simp add: sql_text_def insert_columns_def eval_nat_numeral)
  from columns bound names marks show ?thesis by simp
qed

section \<open>What a failure response discloses\<close>

lemma fileName_ignores_store: "fileName_of (w\<lparr>store_insert := g\<rparr>) = fileName_of w"
  by (rule ext)+ (simp add: fileName_of_def)

lemma s3_url_ignores_store: "s3_url (w\<lparr>store_insert := g\<rparr>) = s3_url w"
  by (rule ext) (simp add: s3_url_def S3_BUCKET_NAME_def)

lemma uploadToS3_ignores_store: "uploadToS3 (w\<lparr>store_insert := g\<rparr>) = uploadToS3 w"
  by (rule ext)+ (simp add: uploadToS3_def s3_url_ignores_store S3_BUCKET_NAME_def
        split: option.splits)

lemma upload_calls_ignore_store:
  "upload_calls (w\<lparr>store_insert := g\<rparr>) fs = upload_calls w fs"
  by (simp add: upload_calls_def uploadToS3_ignores_store fileName_ignores_store)

lemma resolve_ignores_store:
  "resolve_attachments (w\<lparr>store_insert := g\<rparr>) files_opt = resolve_attachments w files_opt"
  by (simp add: resolve_attachments_def uploadMultipleFilesToS3_def upload_calls_ignore_store
        Let_def split: option.splits)

text \<open>
  C8, as amended. When the insert fails, the answer is 500 with the message "Error saving
  the entry.", and its \<open>error\<close> member is the error's own message exactly when
  \<open>NODE_ENV\<close> is \<open>development\<close>; in every other mode, production included, it is the
  fixed text "Database error occurred". So outside development two runs that differ
  only in the error the insert fails with give the same answer.
\<close>

theorem insert_failure_detail_only_in_development:
  assumes "body req = Some b"
    and "truthy (field b ''full_name'')" and "truthy (field b ''email_address'')"
    and "resolve_attachments w (files req) = (evs, Inr vl)"
    and "execute_insert w (insert_values b vl) = Inl err"
  shows "snd (submit_entry w req)
           = res_json 500
               [(''message'', JStr ''Error saving the entry.''),
                (''error'',
                 JStr (if process_env w ''NODE_ENV'' = Some ''development''
                       then message err else ''Database error occurred''))]
         \<and> (\<forall>g err'.
               process_env w ''NODE_ENV'' \<noteq> Some ''development''
               \<and> execute_insert (w\<lparr>store_insert := g\<rparr>) (insert_values b vl) = Inl err' \<longrightarrow>
               snd (submit_entry (w\<lparr>store_insert := g\<rparr>) req) = snd (submit_entry w req))"
proof -
  have here: "snd (submit_entry w req) = insert_error_response w err"
    using submit_entry_past_guards [OF assms(1,2,3), of w] assms(4) persist_failure [OF assms(5)]
    by simp
  have there: "snd (submit_entry (w\<lparr>store_insert := g\<rparr>) req)
                 = insert_error_response (w\<lparr>store_insert := g\<rparr>) err'"
    if "execute_insert (w\<lparr>store_insert := g\<rparr>) (insert_values b vl) = Inl err'" for g err'
    using submit_entry_past_guards [OF assms(1,2,3), of "w\<lparr>store_insert := g\<rparr>"]
      assms(4) resolve_ignores_store [where w = w and g = g and files_opt = "files req"] persist_failure [OF that]
    by simp
  have same: "insert_error_response (w\<lparr>store_insert := g\<rparr>) err' = insert_error_response w err"
    if "process_env w ''NODE_ENV'' \<noteq> Some ''development''" for g err'
    using that by (simp add: insert_error_response_def)
  show ?thesis
    using here there same by (auto simp: insert_error_response_def)
qed

theorem insert_failure_detail_only_in_development_witness:
  "snd (submit_entry (store_failing ''production'' lost_connection)
          \<lparr>body = Some jane, files = None\<rparr>)
     = res_json 500
         [(''message'', JStr ''Error saving the entry.''),
          (''error'', JStr ''Database error occurred'')]
   \<and> snd (submit_entry (store_failing ''production'' lock_timeout)
            \<lparr>body = Some jane, files = None\<rparr>)
     = snd (submit_entry (store_failing ''production'' lost_connection)
              \<lparr>body = Some jane, files = None\<rparr>)
   \<and> snd (submit_entry (store_failing ''development'' lost_connection)
            \<lparr>body = Some jane, files = None\<rparr>)
     = res_json 500
         [(''message'', JStr ''Error saving the entry.''),
          (''error'', JStr ''connect ECONNREFUSED 10.0.0.5:3306'')]"
proof -
  let ?req = "\<lparr>body = Some jane, files = None\<rparr>"
  have name: "truthy (field jane ''full_name'')" by (simp add: jane_fields)
  have email: "truthy (field jane ''email_address'')" by (simp add: jane_fields)
  have res: "resolve_attachments w (files ?req) = ([], Inr JNull)" for w
    using resolve_without_files [of None w] by simp
  have refused: "execute_insert (store_failing mode e) (insert_values jane JNull) = Inl e" for mode e
    by (simp add: execute_insert_def jane_values store_failing_def)
  have mode: "process_env (store_failing mode e) ''NODE_ENV'' = Some mode" for mode e
    by (simp add: store_failing_def)
  have other: "store_failing ''production'' lock_timeout
                 = (store_failing ''production'' lost_connection)\<lparr>store_insert := (\<lambda>vals. Inl lock_timeout)\<rparr>"
    by (simp add: store_failing_def)
  have body: "body ?req = Some jane" by simp
  note prod = insert_failure_detail_only_in_development
    [of ?req jane "store_failing ''production'' lost_connection" "[]" JNull lost_connection,
     OF body name email res refused]
  note dev = insert_failure_detail_only_in_development
    [of ?req jane "store_failing ''development'' lost_connection" "[]" JNull lost_connection,
     OF body name email res refused]
  have first: "snd (submit_entry (store_failing ''production'' lost_connection) ?req)
     = res_json 500
         [(''message'', JStr ''Error saving the entry.''),
          (''error'', JStr ''Database error occurred'')]"
    using prod mode by simp
  have second: "snd (submit_entry (store_failing ''production'' lock_timeout) ?req)
     = snd (submit_entry (store_failing ''production'' lost_connection) ?req)"
  proof -
    have quiet: "process_env (store_failing ''production'' lost_connection) ''NODE_ENV''
                   \<noteq> Some ''development''"
      by (simp add: mode)
    have "execute_insert
            ((store_failing ''production'' lost_connection)\<lparr>store_insert := (\<lambda>vals. Inl lock_timeout)\<rparr>)
            (insert_values jane JNull) = Inl lock_timeout"
      using refused [of "''production''" lock_timeout] by (simp add: other)
    with prod quiet
    have "snd (submit_entry
                 ((store_failing ''production'' lost_connection)\<lparr>store_insert := (\<lambda>vals. Inl lock_timeout)\<rparr>)
                 ?req)
            = snd (submit_entry (store_failing ''production'' lost_connection) ?req)"
      by blast
    then show ?thesis by (simp add: other)
  qed
  have third: "snd (submit_entry (store_failing ''development'' lost_connection) ?req)
     = res_json 500
         [(''message'', JStr ''Error saving the entry.''),
          (''error'', JStr ''connect ECONNREFUSED 10.0.0.5:3306'')]"
    using dev mode by (simp add: lost_connection_def)
  from first second third show ?thesis by simp
qed

text \<open>
  C8 as stated fails in both directions. In production mode a failed upload is answered
  with the storage error's own message, so two runs that differ only in that message
  give different answers; and in a mode that is neither production nor development a
  failed insert is answered without the error's message.
\<close>

theorem error_detail_gate_counterexample:
  "process_env (storage_failing ''production'' access_denied) ''NODE_ENV'' = Some ''production''
   \<and> snd (submit_entry (storage_failing ''production'' access_denied)
            \<lparr>body = Some jane, files = Some [photo, scan]\<rparr>)
       = res_json 500
           [(''message'', JStr ''Error processing submission.''),
            (''error'', JStr ''AccessDenied: arn:aws:iam::123456789012:user/cca'')]
   \<and> snd (submit_entry (storage_failing ''production'' timed_out)
            \<lparr>body = Some jane, files = Some [photo, scan]\<rparr>)
       \<noteq> snd (submit_entry (storage_failing ''production'' access_denied)
                \<lparr>body = Some jane, files = Some [photo, scan]\<rparr>)
   \<and> process_env (store_failing ''test'' lost_connection) ''NODE_ENV'' = Some ''test''
   \<and> ''test'' \<noteq> ''production''
   \<and> snd (submit_entry (store_failing ''test'' lost_connection)
            \<lparr>body = Some jane, files = None\<rparr>)
       = res_json 500
           [(''message'', JStr ''Error saving the entry.''),
            (''error'', JStr ''Database error occurred'')]"
proof -
  let ?req = "\<lparr>body = Some jane, files = Some [photo, scan]\<rparr>"
  have name: "truthy (field jane ''full_name'')" by (simp add: jane_fields)
  have email: "truthy (field jane ''email_address'')" by (simp add: jane_fields)
  have upload: "snd (submit_entry (storage_failing mode e) ?req) = processing_error_response e"
    for mode e
  proof -
    have "1 < length [photo, scan]" by simp
    moreover have "snd (s3_outcome (storage_failing mode e) 1) \<noteq> None"
      by (simp add: storage_failing_def)
    ultimately obtain e' where
      some: "\<exists>j < length [photo, scan]. snd (s3_outcome (storage_failing mode e) j) = Some e'"
      and res: "resolve_attachments (storage_failing mode e) (Some [photo, scan])
                  = (Call_uploadMultipleFilesToS3 (length [photo, scan])
                       # map fst (upload_calls (storage_failing mode e) [photo, scan]), Inl e')"
      using resolve_with_files_failed [of "[photo, scan]" 1 "storage_failing mode e"] by blast
    from some have "e' = e"
      by (auto simp: storage_failing_def split: if_splits)
    with res show ?thesis
      using submit_entry_past_guards [of ?req jane "storage_failing mode e"] name email
      by simp
  qed
  have leak: "snd (submit_entry (storage_failing ''production'' access_denied) ?req)
       = res_json 500
           [(''message'', JStr ''Error processing submission.''),
            (''error'', JStr ''AccessDenied: arn:aws:iam::123456789012:user/cca'')]"
    using upload [of "''production''" access_denied]
    by (simp add: processing_error_response_def access_denied_def new_Error_def)
  have differ: "snd (submit_entry (storage_failing ''production'' timed_out) ?req)
       \<noteq> snd (submit_entry (storage_failing ''production'' access_denied) ?req)"
    using upload [of "''production''" access_denied] upload [of "''production''" timed_out]
    by (simp add: processing_error_response_def access_denied_def timed_out_def new_Error_def
          res_json_def)
  have refused: "execute_insert (store_failing ''test'' lost_connection) (insert_values jane JNull)
                   = Inl lost_connection"
    by (simp add: execute_insert_def jane_values store_failing_def)
  have "submit_entry (store_failing ''test'' lost_connection) \<lparr>body = Some jane, files = None\<rparr>
          = persist (store_failing ''test'' lost_connection) jane [] JNull"
    using submit_entry_past_guards
        [of "\<lparr>body = Some jane, files = None\<rparr>" jane "store_failing ''test'' lost_connection"]
      name email resolve_without_files [of None "store_failing ''test'' lost_connection"]
    by simp
  then have hidden: "snd (submit_entry (store_failing ''test'' lost_connection)
            \<lparr>body = Some jane, files = None\<rparr>)
       = res_json 500
           [(''message'', JStr ''Error saving the entry.''),
            (''error'', JStr ''Database error occurred'')]"
    using persist_failure [OF refused, of "[]"]
    by (simp add: insert_error_response_def store_failing_def)
  have modes: "process_env (storage_failing ''production'' access_denied) ''NODE_ENV'' = Some ''production''"
    "process_env (store_failing ''test'' lost_connection) ''NODE_ENV'' = Some ''test''"
    by (simp_all add: storage_failing_def store_failing_def)
  from leak differ hidden modes show ?thesis by simp
qed

end
